theory Spec2Isabelle
  imports Complex_Main
begin

section \<open>Motion-control core of the mecanum robot\<close>

text \<open>
  The firmware computes with C++ \<^verbatim>\<open>double\<close>. Every \<^verbatim>\<open>double\<close> is modelled as a
  \<^typ>\<open>real\<close>: the definitions below are the exact arithmetic the code approximates,
  with neither rounding nor NaN or infinities. The fixed-size vectors
  (\<^verbatim>\<open>Eigen::Vector3d\<close>, \<^verbatim>\<open>Eigen::Vector4d\<close>) are tuples whose components are in index
  order.
\<close>

type_synonym vec3 = "real \<times> real \<times> real"
type_synonym vec4 = "real \<times> real \<times> real \<times> real"

subsection \<open>Kinematics model (\<^verbatim>\<open>MecanumKinematics4W\<close>)\<close>

text \<open>
  \<^verbatim>\<open>kinematics.hpp\<close> declares the class with its three private members
  \<^verbatim>\<open>wheel_radius_\<close>, \<^verbatim>\<open>wheel_base_\<close> and \<^verbatim>\<open>track_width_\<close>; the bodies of the
  constructor and of the two operations are not part of the sources at hand.
\<close>

text \<open>
  Modelled from the spec: the geometry the missing operations compute with, fixed at
  construction: the wheel radius \<open>r\<close>, the wheel-base half-length \<open>a\<close> and the track-width
  half-length \<open>b\<close>. How the constructor obtains \<open>a\<close> and \<open>b\<close> from its arguments
  \<^verbatim>\<open>wheel_base\<close> and \<^verbatim>\<open>track_width\<close> is not in the sources.
\<close>

record kinematics_geometry =
  wheel_radius :: real
  half_wheel_base :: real
  half_track_width :: real

text \<open>Modelled from the spec: the geometry factor \<open>k = a + b\<close> of the missing operations.\<close>

definition geometry_factor :: "kinematics_geometry \<Rightarrow> real" where
  "geometry_factor g = half_wheel_base g + half_track_width g"

text \<open>
  Modelled from the spec: the body of \<^verbatim>\<open>MecanumKinematics4W::calculate_wheel_velocity\<close>
  (the inverse kinematics) is missing. Wheel order: front-left, front-right, back-left,
  back-right.
\<close>

definition calculate_wheel_velocity :: "kinematics_geometry \<Rightarrow> vec3 \<Rightarrow> vec4" where
  "calculate_wheel_velocity g v =
     (case v of (vx, vy, w) \<Rightarrow>
        let r = wheel_radius g; k = geometry_factor g
        in ((vx - vy - k * w) / r,
            (vx + vy + k * w) / r,
            (vx + vy - k * w) / r,
            (vx - vy + k * w) / r))"

text \<open>
  Modelled from the spec: the body of \<^verbatim>\<open>MecanumKinematics4W::calculate_robot_velocity\<close>
  (the forward kinematics) is missing. The specification calls it the least-squares left
  inverse of the inverse map under equal weighting, the average of the per-pair
  estimates: each body component is the mean over the four wheels of the wheel speed
  taken with the sign (and, for the yaw rate, the factor \<open>k\<close>) it has in the inverse map.
\<close>

definition calculate_robot_velocity :: "kinematics_geometry \<Rightarrow> vec4 \<Rightarrow> vec3" where
  "calculate_robot_velocity g u =
     (case u of (w0, w1, w2, w3) \<Rightarrow>
        let r = wheel_radius g; k = geometry_factor g
        in (r * (w0 + w1 + w2 + w3) / 4,
            r * (- w0 + w1 + w2 - w3) / 4,
            r * (- w0 + w1 - w2 + w3) / (4 * k)))"

text \<open>The squared Euclidean distance of two wheel velocity sets.\<close>

definition dist4_sq :: "vec4 \<Rightarrow> vec4 \<Rightarrow> real" where
  "dist4_sq u u' =
     (case u of (a0, a1, a2, a3) \<Rightarrow> case u' of (b0, b1, b2, b3) \<Rightarrow>
        (a0 - b0)\<^sup>2 + (a1 - b1)\<^sup>2 + (a2 - b2)\<^sup>2 + (a3 - b3)\<^sup>2)"

text \<open>The geometry of the end-to-end scenario: \<open>r = 0.05\<close>, \<open>a = 0.1\<close>, \<open>b = 0.1\<close>.\<close>

definition scenario_geometry :: kinematics_geometry where
  "scenario_geometry =
     \<lparr>wheel_radius = 0.05, half_wheel_base = 0.1, half_track_width = 0.1\<rparr>"

subsection \<open>Signal filters\<close>

text \<open>
  Modelled from the spec: the filter classes \<^verbatim>\<open>NoFilter\<close>, \<^verbatim>\<open>MovingAverageFilter\<close> and
  \<^verbatim>\<open>LowPassFilter\<close> that \<^verbatim>\<open>core.cpp\<close> instantiates are missing. A filter is a stateful
  transform \<open>update(sample) -> filtered_sample\<close>:
  \<^item> pass-through returns its input unchanged;
  \<^item> the moving average keeps the last \<open>W\<close> samples (oldest first here) and returns their
    arithmetic mean, over the partial window while fewer than \<open>W\<close> samples have arrived;
  \<^item> the low-pass filter moves its output by \<open>\<alpha> \<cdot> (input - output)\<close>; the factor \<open>\<alpha>\<close>,
    derived at construction from the cutoff frequency and the sampling period, is stored.
\<close>

datatype signal_filter =
    NoFilter
  | MovingAverageFilter nat "real list"
  | LowPassFilter real real

text \<open>
  Modelled from the spec: the \<^verbatim>\<open>update\<close> method of the missing filter classes, which
  returns the filtered sample; the second component is the filter after the call.
\<close>

fun filter_update :: "signal_filter \<Rightarrow> real \<Rightarrow> real \<times> signal_filter" where
  "filter_update NoFilter x = (x, NoFilter)"
| "filter_update (MovingAverageFilter W xs) x =
     (let ys = xs @ [x];
          zs = drop (length ys - W) ys
      in (sum_list zs / real (length zs), MovingAverageFilter W zs))"
| "filter_update (LowPassFilter alpha out) x =
     (let out' = out + alpha * (x - out)
      in (out', LowPassFilter alpha out'))"

subsection \<open>PID regulator (\<^verbatim>\<open>PIDController\<close>)\<close>

text \<open>
  The tuning constants of \<^verbatim>\<open>core.cpp\<close>, lines 56 to 64. The globals
  \<^verbatim>\<open>max_expected_sampling_time\<close> and \<^verbatim>\<open>max_integral\<close> carry the suffix \<open>_conf\<close> here,
  as the regulator has fields of these names.
\<close>

definition base_kp :: real where "base_kp = 0.105"
definition base_ki :: real where "base_ki = 0.125"
definition modifier_ki_linear :: real where "modifier_ki_linear = 2.0"
definition modifier_ki_rotational :: real where "modifier_ki_rotational = 1.1"
definition base_kd :: real where "base_kd = 0.005"
definition max_expected_sampling_time_conf :: real where
  "max_expected_sampling_time_conf = 0.2"
definition max_integral_conf :: real where "max_integral_conf = 5.2"

text \<open>
  Modelled from the spec: the state of the missing class \<^verbatim>\<open>PIDController\<close>: the five
  constants \<^verbatim>\<open>core.cpp\<close> passes to its constructor, the integral accumulator and the
  previous error.
\<close>

record pid_controller =
  kp :: real
  ki :: real
  kd :: real
  max_expected_sampling_time :: real
  max_integral :: real
  integral :: real
  previous_error :: real

text \<open>
  Modelled from the spec: the constructor of the missing class; \<^verbatim>\<open>core.cpp\<close> calls it
  with \<open>(kp, ki, kd, max_expected_sampling_time, max_integral)\<close>. A new regulator has an
  empty accumulator and no previous error.
\<close>

definition PIDController :: "real \<Rightarrow> real \<Rightarrow> real \<Rightarrow> real \<Rightarrow> real \<Rightarrow> pid_controller" where
  "PIDController p i d t m =
     \<lparr>kp = p, ki = i, kd = d, max_expected_sampling_time = t, max_integral = m,
      integral = 0, previous_error = 0\<rparr>"

text \<open>
  Modelled from the spec: \<^verbatim>\<open>set_ki\<close> of the missing class retunes the integral gain and
  nothing else.
\<close>

definition set_ki :: "pid_controller \<Rightarrow> real \<Rightarrow> pid_controller" where
  "set_ki c k = c\<lparr>ki := k\<rparr>"

text \<open>Modelled from the spec: clamping a value to the interval \<open>[lo, hi]\<close>.\<close>

definition clamp :: "real \<Rightarrow> real \<Rightarrow> real \<Rightarrow> real" where
  "clamp x lo hi = (if x < lo then lo else if hi < x then hi else x)"

text \<open>
  Modelled from the spec: \<open>compute(setpoint, measured, dt)\<close> of the missing class.
  \<open>error = setpoint - measured\<close>; the proportional term is \<open>kp \<cdot> error\<close>; the integral
  accumulator grows by \<open>error \<cdot> dt\<close> and is then clamped to
  \<open>[-max_integral, +max_integral]\<close>; the integral term is \<open>ki\<close> times the accumulator; the
  derivative term is \<open>kd \<cdot> (error - previous_error) / dt\<close>; the output is the sum of the
  three terms. When \<open>dt\<close> is non-positive or exceeds \<open>max_expected_sampling_time\<close> the
  derivative and integral update is skipped for that cycle and the output is the
  proportional term alone.

  The specification names the gain twice: its algorithm writes the accumulation as
  \<open>integral += ki \<cdot> error \<cdot> dt\<close>, and its integral clamping property bounds the integral
  term by \<open>max_integral \<cdot> ki\<close> with the accumulator clamped to \<open>max_integral\<close>. The two
  agree only when the gain multiplies the clamped accumulator, the usual form of the
  anti-windup clamp (\<open>set_ki\<close> then rescales the term at once); that form is modelled.
  \<open>compute_terms\<close> returns the three terms of the output separately, with the new state.
\<close>

definition compute_terms ::
  "pid_controller \<Rightarrow> real \<Rightarrow> real \<Rightarrow> real \<Rightarrow> (real \<times> real \<times> real) \<times> pid_controller" where
  "compute_terms c setpoint measured dt =
     (let error = setpoint - measured;
          proportional = kp c * error
      in if dt \<le> 0 \<or> max_expected_sampling_time c < dt
         then ((proportional, 0, 0), c)
         else
           let integral' = clamp (integral c + error * dt)
                                 (- max_integral c) (max_integral c);
               derivative = kd c * (error - previous_error c) / dt
           in ((proportional, ki c * integral', derivative),
               c\<lparr>integral := integral', previous_error := error\<rparr>))"

text \<open>
  Modelled from the spec: the control output of \<open>compute\<close>, the sum of the three terms,
  with the regulator after the call.
\<close>

definition compute :: "pid_controller \<Rightarrow> real \<Rightarrow> real \<Rightarrow> real \<Rightarrow> real \<times> pid_controller" where
  "compute c setpoint measured dt =
     (case compute_terms c setpoint measured dt of
        ((proportional, integral_part, derivative), c') \<Rightarrow>
          (proportional + integral_part + derivative, c'))"

text \<open>The contribution of the integral term to the output of a \<open>compute\<close> call.\<close>

definition integral_term :: "pid_controller \<Rightarrow> real \<Rightarrow> real \<Rightarrow> real \<Rightarrow> real" where
  "integral_term c setpoint measured dt =
     (case compute_terms c setpoint measured dt of ((_, i, _), _) \<Rightarrow> i)"

text \<open>
  A history of a regulator: \<open>compute\<close> calls with their three arguments, and \<open>set_ki\<close>
  calls, in the order they are made.
\<close>

datatype pid_call = Compute real real real | SetKi real

fun pid_call_step :: "pid_controller \<Rightarrow> pid_call \<Rightarrow> pid_controller" where
  "pid_call_step c (Compute setpoint measured dt) = snd (compute c setpoint measured dt)"
| "pid_call_step c (SetKi k) = set_ki c k"

definition pid_run :: "pid_controller \<Rightarrow> pid_call list \<Rightarrow> pid_controller" where
  "pid_run c calls = foldl pid_call_step c calls"

text \<open>The regulator of every wheel as \<^verbatim>\<open>core.cpp\<close> constructs it (lines 66 to 73).\<close>

definition controller_conf :: pid_controller where
  "controller_conf =
     PIDController base_kp base_ki base_kd max_expected_sampling_time_conf max_integral_conf"

subsection \<open>Motor channel (\<^verbatim>\<open>PIDMotorController\<close>)\<close>

text \<open>The minimum output of every channel (\<^verbatim>\<open>core.cpp\<close>, line 100).\<close>

definition MIN_OUTPUT :: real where "MIN_OUTPUT = 0.35"

text \<open>
  Modelled from the spec: the state of the missing class \<^verbatim>\<open>PIDMotorController\<close>: a
  regulator, an input filter, an output filter, the minimum output magnitude, the target
  velocity and the measured velocity.
\<close>

record motor_channel =
  controller :: pid_controller
  input_filter :: signal_filter
  output_filter :: signal_filter
  min_output :: real
  target_velocity :: real
  measured_velocity :: real

text \<open>
  Modelled from the spec: the constructor of the missing class; \<^verbatim>\<open>core.cpp\<close> constructs
  each channel from a driver, an encoder, a regulator, an input filter, an output filter
  and \<^verbatim>\<open>MIN_OUTPUT\<close>. The driver and the encoder are outside the model: the encoder's
  velocity reading is an argument of the update, and the value sent to the driver is a
  result.
\<close>

definition PIDMotorController ::
  "pid_controller \<Rightarrow> signal_filter \<Rightarrow> signal_filter \<Rightarrow> real \<Rightarrow> motor_channel" where
  "PIDMotorController c fin fout m =
     \<lparr>controller = c, input_filter = fin, output_filter = fout, min_output = m,
      target_velocity = 0, measured_velocity = 0\<rparr>"

text \<open>Modelled from the spec: \<open>set_target(velocity)\<close> stores the desired wheel velocity.\<close>

definition set_target :: "motor_channel \<Rightarrow> real \<Rightarrow> motor_channel" where
  "set_target m v = m\<lparr>target_velocity := v\<rparr>"

text \<open>
  Modelled from the spec: the first stages of \<open>update(dt)\<close>. The raw encoder velocity
  goes through the input filter, the regulator computes from the target and the filtered
  measurement, and its output goes through the output filter. The result is the filtered
  output, before the deadband compensation. The channel keeps the encoder reading for
  its accessor \<open>get_measured_velocity\<close>.
\<close>

definition regulate :: "motor_channel \<Rightarrow> real \<Rightarrow> real \<Rightarrow> real \<times> motor_channel" where
  "regulate m raw dt =
     (case filter_update (input_filter m) raw of (filtered, fin) \<Rightarrow>
      case compute (controller m) (target_velocity m) filtered dt of (control, c) \<Rightarrow>
      case filter_update (output_filter m) control of (out, fout) \<Rightarrow>
        (out, m\<lparr>controller := c, input_filter := fin, output_filter := fout,
                measured_velocity := raw\<rparr>))"

text \<open>
  Modelled from the spec: the deadband compensation. A filtered output that is non-zero
  with a magnitude below the configured minimum is raised to the minimum with its sign;
  an output that is exactly zero, or any output while the target is zero, passes
  unchanged.
\<close>

definition deadband :: "real \<Rightarrow> real \<Rightarrow> real \<Rightarrow> real" where
  "deadband minimum target out =
     (if target = 0 \<or> out = 0 then out
      else if \<bar>out\<bar> < minimum then (if 0 < out then minimum else - minimum)
      else out)"

text \<open>
  Modelled from the spec: \<open>update(dt)\<close> of the missing class; the first component is the
  value sent to the actuation output.
\<close>

definition motor_update :: "motor_channel \<Rightarrow> real \<Rightarrow> real \<Rightarrow> real \<times> motor_channel" where
  "motor_update m raw dt =
     (case regulate m raw dt of (out, m') \<Rightarrow>
        (deadband (min_output m) (target_velocity m) out, m'))"

text \<open>A wheel channel as \<^verbatim>\<open>core.cpp\<close> constructs it (lines 80 to 113).\<close>

definition motor_controller_conf :: motor_channel where
  "motor_controller_conf = PIDMotorController controller_conf NoFilter NoFilter MIN_OUTPUT"

subsection \<open>Motor array manager (\<^verbatim>\<open>MotorControllerManager\<close>)\<close>

text \<open>
  Modelled from the spec: the class \<^verbatim>\<open>MotorControllerManager\<close> is missing. \<^verbatim>\<open>core.cpp\<close>
  gives it the four channels \<open>M0\<close> to \<open>M3\<close>, index-aligned with the wheel order of the
  kinematics. The regulators \<^verbatim>\<open>controller_M0\<close> to \<^verbatim>\<open>controller_M3\<close> are globals the
  channels refer to; here each lives in its channel, and a \<^verbatim>\<open>set_ki\<close> on the global is a
  \<open>set_ki\<close> on the channel's regulator.
\<close>

type_synonym motor_control_manager =
  "motor_channel \<times> motor_channel \<times> motor_channel \<times> motor_channel"

text \<open>
  Modelled from the spec: \<open>set_targets\<close> of the missing class gives each component of
  the wheel velocity set to the channel of the same index.
\<close>

definition set_targets :: "motor_control_manager \<Rightarrow> vec4 \<Rightarrow> motor_control_manager" where
  "set_targets mgr t =
     (case mgr of (m0, m1, m2, m3) \<Rightarrow> case t of (t0, t1, t2, t3) \<Rightarrow>
        (set_target m0 t0, set_target m1 t1, set_target m2 t2, set_target m3 t3))"

text \<open>
  Modelled from the spec: \<open>update(dt)\<close> of the missing class updates every channel in
  index order, each with the reading of its encoder.
\<close>

definition manager_update ::
  "motor_control_manager \<Rightarrow> vec4 \<Rightarrow> real \<Rightarrow> vec4 \<times> motor_control_manager" where
  "manager_update mgr enc dt =
     (case mgr of (m0, m1, m2, m3) \<Rightarrow> case enc of (e0, e1, e2, e3) \<Rightarrow>
      case motor_update m0 e0 dt of (o0, m0') \<Rightarrow>
      case motor_update m1 e1 dt of (o1, m1') \<Rightarrow>
      case motor_update m2 e2 dt of (o2, m2') \<Rightarrow>
      case motor_update m3 e3 dt of (o3, m3') \<Rightarrow>
        ((o0, o1, o2, o3), (m0', m1', m2', m3')))"

text \<open>
  Modelled from the spec: \<open>get_measured_velocities\<close> of the missing class gathers the
  measured velocity of every channel.
\<close>

definition get_measured_velocities :: "motor_control_manager \<Rightarrow> vec4" where
  "get_measured_velocities mgr =
     (case mgr of (m0, m1, m2, m3) \<Rightarrow>
        (measured_velocity m0, measured_velocity m1,
         measured_velocity m2, measured_velocity m3))"

text \<open>
  Modelled from the spec: \<open>get_set_velocities\<close> of the missing class gathers the target
  velocity of every channel.
\<close>

definition get_set_velocities :: "motor_control_manager \<Rightarrow> vec4" where
  "get_set_velocities mgr =
     (case mgr of (m0, m1, m2, m3) \<Rightarrow>
        (target_velocity m0, target_velocity m1, target_velocity m2, target_velocity m3))"

text \<open>
  The four \<^verbatim>\<open>set_ki\<close> calls of a branch of the callback (lines 188 to 191, 195 to 198,
  202 to 205), and the gains of the four regulators.
\<close>

definition set_ki_all :: "motor_control_manager \<Rightarrow> real \<Rightarrow> motor_control_manager" where
  "set_ki_all mgr k =
     (case mgr of (m0, m1, m2, m3) \<Rightarrow>
        (m0\<lparr>controller := set_ki (controller m0) k\<rparr>,
         m1\<lparr>controller := set_ki (controller m1) k\<rparr>,
         m2\<lparr>controller := set_ki (controller m2) k\<rparr>,
         m3\<lparr>controller := set_ki (controller m3) k\<rparr>))"

definition get_ki_all :: "motor_control_manager \<Rightarrow> vec4" where
  "get_ki_all mgr =
     (case mgr of (m0, m1, m2, m3) \<Rightarrow>
        (ki (controller m0), ki (controller m1), ki (controller m2), ki (controller m3)))"

subsection \<open>Velocity controller (\<^verbatim>\<open>VelocityController\<close>)\<close>

text \<open>
  \<^verbatim>\<open>velocity_controller.hpp\<close> declares the class and its members; the bodies are
  missing.
\<close>

record velocity_controller =
  motor_manager :: motor_control_manager
  kinematics_model :: kinematics_geometry
  latest_command :: vec3
  robot_velocity :: vec3

text \<open>
  Modelled from the spec: the constructor of the missing body. Before the first command
  the controller is idle, with a zero command and a zero estimate.
\<close>

definition VelocityController ::
  "motor_control_manager \<Rightarrow> kinematics_geometry \<Rightarrow> velocity_controller" where
  "VelocityController mgr g =
     \<lparr>motor_manager = mgr, kinematics_model = g,
      latest_command = (0, 0, 0), robot_velocity = (0, 0, 0)\<rparr>"

text \<open>
  Modelled from the spec: \<^verbatim>\<open>VelocityController::set_latest_command\<close> is missing; it
  stores the latest command and overwrites the previous one.
\<close>

definition set_latest_command :: "velocity_controller \<Rightarrow> vec3 \<Rightarrow> velocity_controller" where
  "set_latest_command vc cmd = vc\<lparr>latest_command := cmd\<rparr>"

text \<open>
  Modelled from the spec: \<^verbatim>\<open>VelocityController::update\<close> is missing. Inverse kinematics
  of the last command, targets to the motor array, update of the motor array, forward
  kinematics of the measured wheel velocities, stored as the velocity estimate. The
  encoder readings and the sampling interval of the cycle are arguments; the first
  component of the result holds the four values sent to the drivers.
\<close>

definition VelocityController_update ::
  "velocity_controller \<Rightarrow> vec4 \<Rightarrow> real \<Rightarrow> vec4 \<times> velocity_controller" where
  "VelocityController_update vc enc dt =
     (let targets = calculate_wheel_velocity (kinematics_model vc) (latest_command vc);
          mgr = set_targets (motor_manager vc) targets
      in case manager_update mgr enc dt of (outs, mgr') \<Rightarrow>
           (outs,
            vc\<lparr>motor_manager := mgr',
               robot_velocity :=
                 calculate_robot_velocity (kinematics_model vc)
                   (get_measured_velocities mgr')\<rparr>))"

text \<open>
  Modelled from the spec: the two read-only accessors, the current velocity estimate and
  the wheel velocities set from the latest command.
\<close>

definition get_robot_velocity :: "velocity_controller \<Rightarrow> vec3" where
  "get_robot_velocity vc = robot_velocity vc"

definition get_set_wheel_velocities :: "velocity_controller \<Rightarrow> vec4" where
  "get_set_wheel_velocities vc = get_set_velocities (motor_manager vc)"

subsection \<open>The program state of \<^verbatim>\<open>core.cpp\<close>\<close>

text \<open>
  The messages, with the fields \<^verbatim>\<open>core.cpp\<close> reads or writes. The covariance arrays of
  the odometry message are \<^verbatim>\<open>double[36]\<close>, row-major 6 by 6 over
  (x, y, z, rotation about X, rotation about Y, rotation about Z).
\<close>

record twist_msg =
  linear_x :: real
  linear_y :: real
  linear_z :: real
  angular_x :: real
  angular_y :: real
  angular_z :: real

record odometry_msg =
  position_x :: real
  position_y :: real
  orientation_w :: real
  orientation_z :: real
  twist_linear_x :: real
  twist_linear_y :: real
  twist_angular_z :: real
  pose_covariance :: "real list"
  twist_covariance :: "real list"

record joint_state =
  position :: vec4
  velocity :: vec4

text \<open>
  The globals of \<^verbatim>\<open>core.cpp\<close> that the control path uses. The transport, the time
  synchronisation, the time stamps, the diagnostics and the commanded joint-state
  message (whose arrays are never allocated) are left out.
\<close>

record core_state =
  robot_controller :: velocity_controller
  cmd_vel_filter_x :: signal_filter
  cmd_vel_filter_y :: signal_filter
  cmd_vel_filter_rot :: signal_filter
  smoothed_cmd_vel :: vec3
  pose :: vec3
  odom_msg :: odometry_msg
  joint_state_msg :: joint_state

text \<open>
  The state the global constructors leave (lines 46 to 149). The geometry constants
  \<^verbatim>\<open>WHEEL_RADIUS\<close>, \<^verbatim>\<open>WHEEL_BASE\<close> and \<^verbatim>\<open>TRACK_WIDTH\<close> come from a header that is not
  at hand, so the geometry is a parameter. Messages are zero-initialised globals.
\<close>

definition initial_state :: "kinematics_geometry \<Rightarrow> core_state" where
  "initial_state g =
     \<lparr>robot_controller =
        VelocityController
          (motor_controller_conf, motor_controller_conf,
           motor_controller_conf, motor_controller_conf) g,
      cmd_vel_filter_x = MovingAverageFilter 2 [],
      cmd_vel_filter_y = MovingAverageFilter 2 [],
      cmd_vel_filter_rot = MovingAverageFilter 4 [],
      smoothed_cmd_vel = (0, 0, 0),
      pose = (0, 0, 0),
      odom_msg =
        \<lparr>position_x = 0, position_y = 0, orientation_w = 0, orientation_z = 0,
         twist_linear_x = 0, twist_linear_y = 0, twist_angular_z = 0,
         pose_covariance = replicate 36 0, twist_covariance = replicate 36 0\<rparr>,
      joint_state_msg = \<lparr>position = (0, 0, 0, 0), velocity = (0, 0, 0, 0)\<rparr>\<rparr>"

subsection \<open>\<^verbatim>\<open>cmd_vel_subscription_callback\<close> (lines 177 to 209)\<close>

text \<open>
  The gain the callback gives to the four regulators, from the smoothed command.
  \<^verbatim>\<open>abs\<close> is the absolute value of a \<^verbatim>\<open>double\<close>.
\<close>

definition select_ki :: "vec3 \<Rightarrow> real" where
  "select_ki smoothed =
     (case smoothed of (s0, s1, s2) \<Rightarrow>
        if \<bar>s0\<bar> > 0.5 \<or> \<bar>s1\<bar> > 0.5 then base_ki * modifier_ki_linear
        else if \<bar>s2\<bar> > 1.0 then base_ki * modifier_ki_rotational
        else base_ki)"

definition cmd_vel_subscription_callback :: "core_state \<Rightarrow> twist_msg \<Rightarrow> core_state" where
  "cmd_vel_subscription_callback st msg =
     (case filter_update (cmd_vel_filter_x st) (linear_x msg) of (s0, fx) \<Rightarrow>
      case filter_update (cmd_vel_filter_y st) (linear_y msg) of (s1, fy) \<Rightarrow>
      case filter_update (cmd_vel_filter_rot st) (angular_z msg) of (s2, frot) \<Rightarrow>
        let smoothed = (s0, s1, s2);
            rc = robot_controller st;
            rc' = rc\<lparr>motor_manager := set_ki_all (motor_manager rc) (select_ki smoothed)\<rparr>
        in st\<lparr>cmd_vel_filter_x := fx, cmd_vel_filter_y := fy, cmd_vel_filter_rot := frot,
              smoothed_cmd_vel := smoothed,
              robot_controller := set_latest_command rc' smoothed\<rparr>)"

subsection \<open>\<^verbatim>\<open>setup\<close>: the covariance (lines 298 to 317)\<close>

text \<open>
  \<^verbatim>\<open>temp_covariance\<close> is a fresh \<^verbatim>\<open>malloc\<close> block of 36 doubles: its content before the
  writes is arbitrary, the argument \<open>heap\<close>. The loop zeroes the entries whose index is
  not a multiple of 7, the six assignments set the diagonal, and \<^verbatim>\<open>memcpy\<close> copies the
  36 entries to both covariance arrays of the odometry message.
\<close>

definition zero_off_diagonal :: "(nat \<Rightarrow> real) \<Rightarrow> nat \<Rightarrow> real" where
  "zero_off_diagonal heap =
     fold (\<lambda>i t. if i mod 7 \<noteq> 0 then t(i := 0.0) else t) [0..<36] heap"

definition temp_covariance :: "(nat \<Rightarrow> real) \<Rightarrow> nat \<Rightarrow> real" where
  "temp_covariance heap =
     (zero_off_diagonal heap)
       (0 + 0 := 0.8, 6 + 1 := 0.8, 12 + 2 := 0.8, 18 + 3 := 0, 24 + 4 := 0, 30 + 5 := 0.8)"

definition memcpy36 :: "(nat \<Rightarrow> real) \<Rightarrow> real list" where
  "memcpy36 t = map t [0..<36]"

text \<open>
  The part of \<^verbatim>\<open>setup\<close> that touches the state above: the covariance arrays, and the
  position and velocity arrays of the joint state message, which are fresh \<^verbatim>\<open>malloc\<close>
  blocks that \<^verbatim>\<open>setup\<close> does not write (their content is the arguments \<open>jp\<close>, \<open>jv\<close>). The name \<open>setup\<close> is reserved, hence \<open>setup_core\<close>.
\<close>

definition setup_core :: "(nat \<Rightarrow> real) \<Rightarrow> vec4 \<Rightarrow> vec4 \<Rightarrow> core_state \<Rightarrow> core_state" where
  "setup_core heap jp jv st =
     st\<lparr>odom_msg := (odom_msg st)
           \<lparr>pose_covariance := memcpy36 (temp_covariance heap),
            twist_covariance := memcpy36 (temp_covariance heap)\<rparr>,
        joint_state_msg := \<lparr>position = jp, velocity = jv\<rparr>\<rparr>"

subsection \<open>\<^verbatim>\<open>loop\<close> (lines 347 to 499)\<close>

text \<open>
  The C library's \<^verbatim>\<open>atan2(y, x)\<close> on the reals: the angle of the point \<open>(x, y)\<close>, with
  \<open>atan2(0, 0) = 0\<close>.
\<close>

definition atan2 :: "real \<Rightarrow> real \<Rightarrow> real" where
  "atan2 y x =
     (if 0 < x then arctan (y / x)
      else if x < 0 then (if 0 \<le> y then arctan (y / x) + pi else arctan (y / x) - pi)
      else if 0 < y then pi / 2
      else if y < 0 then - (pi / 2)
      else 0)"

text \<open>Lines 424 to 429: the pose update from the velocity estimate and \<open>dt\<close>.\<close>

definition odometry_step :: "vec3 \<Rightarrow> vec3 \<Rightarrow> real \<Rightarrow> vec3" where
  "odometry_step p v dt =
     (case p of (p0, p1, p2) \<Rightarrow> case v of (v0, v1, v2) \<Rightarrow>
        let p0' = p0 + (v0 * cos p2 * dt - v1 * sin p2 * dt);
            p1' = p1 + (v0 * sin p2 * dt + v1 * cos p2 * dt);
            p2' = p2 + v2 * dt
        in (p0', p1', atan2 (sin p2') (cos p2')))"

text \<open>Lines 467 to 475: the joint state from the wheel velocities and \<open>dt\<close>.\<close>

definition joint_state_step :: "joint_state \<Rightarrow> vec4 \<Rightarrow> real \<Rightarrow> joint_state" where
  "joint_state_step js wheel_velocities dt =
     (case position js of (q0, q1, q2, q3) \<Rightarrow>
      case wheel_velocities of (w0, w1, w2, w3) \<Rightarrow>
        \<lparr>position = (q0 + w0 * dt, q1 + w1 * dt, q2 + w2 * dt, q3 + w3 * dt),
         velocity = (w0, w1, w2, w3)\<rparr>)"

text \<open>
  One pass of \<^verbatim>\<open>loop\<close>, from its start to the publish of the joint state on line 480.
  The inputs of the pass are the four encoder readings, the sampling interval \<open>dt_ctrl\<close>
  of the controller update, and \<open>dt\<close>, the time since the previous pass that line 421
  computes from \<^verbatim>\<open>millis()\<close>. The global \<^verbatim>\<open>kinematics\<close> is the object the velocity
  controller points to.

  Lines 484 to 496 are not part of this function: they write the commanded wheel
  velocities through \<^verbatim>\<open>wanted_joint_state_msg.velocity.data\<close>, a pointer that \<^verbatim>\<open>setup\<close>
  never allocates, so in the source the pass does not get beyond line 487. What the pass
  has done before, and published on lines 447 and 480, is the result here; those lines
  touch neither the pose, nor the two published messages, nor the command filters.
\<close>

definition loop :: "core_state \<Rightarrow> vec4 \<Rightarrow> real \<Rightarrow> real \<Rightarrow> core_state" where
  "loop st enc dt_ctrl dt =
     (case VelocityController_update (robot_controller st) enc dt_ctrl of (outs, rc) \<Rightarrow>
        let robot_velocity = get_robot_velocity rc;
            pose' = odometry_step (pose st) robot_velocity dt;
            odom = (case pose' of (p0, p1, p2) \<Rightarrow> case robot_velocity of (v0, v1, v2) \<Rightarrow>
                      (odom_msg st)
                        \<lparr>position_x := p0, position_y := p1,
                         orientation_w := cos (p2 / 2.0), orientation_z := sin (p2 / 2.0),
                         twist_linear_x := v0, twist_linear_y := v1,
                         twist_angular_z := v2\<rparr>);
            wheel_velocities = calculate_wheel_velocity (kinematics_model rc) robot_velocity
        in st\<lparr>robot_controller := rc, pose := pose', odom_msg := odom,
              joint_state_msg := joint_state_step (joint_state_msg st) wheel_velocities dt\<rparr>)"

text \<open>
  What happens after \<^verbatim>\<open>setup\<close>: the executor delivers a velocity command to the callback,
  or a pass of \<^verbatim>\<open>loop\<close> runs.
\<close>

datatype event = CmdVel twist_msg | Loop vec4 real real

fun event_step :: "core_state \<Rightarrow> event \<Rightarrow> core_state" where
  "event_step st (CmdVel msg) = cmd_vel_subscription_callback st msg"
| "event_step st (Loop enc dt_ctrl dt) = loop st enc dt_ctrl dt"

definition run :: "core_state \<Rightarrow> event list \<Rightarrow> core_state" where
  "run st evs = foldl event_step st evs"

text \<open>The commands among the events, in the order of arrival.\<close>

fun received :: "event list \<Rightarrow> twist_msg list" where
  "received [] = []"
| "received (CmdVel msg # evs) = msg # received evs"
| "received (Loop enc dt_ctrl dt # evs) = received evs"

text \<open>The arithmetic mean of the last \<open>W\<close> entries of a list (of all, if it has fewer).\<close>

definition mean_last :: "nat \<Rightarrow> real list \<Rightarrow> real" where
  "mean_last W xs =
     (let zs = drop (length xs - W) xs in sum_list zs / real (length zs))"

text \<open>The odometry pose after \<open>n\<close> steps with the same velocity and the same \<open>dt\<close>.\<close>

definition odometry_run :: "nat \<Rightarrow> vec3 \<Rightarrow> real \<Rightarrow> vec3 \<Rightarrow> vec3" where
  "odometry_run n v dt p = ((\<lambda>q. odometry_step q v dt) ^^ n) p"

text \<open>A velocity command with the three components the callback reads.\<close>

definition command :: "real \<Rightarrow> real \<Rightarrow> real \<Rightarrow> twist_msg" where
  "command vx vy w =
     \<lparr>linear_x = vx, linear_y = vy, linear_z = 0,
      angular_x = 0, angular_y = 0, angular_z = w\<rparr>"

text \<open>The covariance matrix both arrays of the odometry message hold after \<^verbatim>\<open>setup\<close>.\<close>

definition covariance_matrix :: "real list" where
  "covariance_matrix =
     [0.8, 0, 0, 0, 0, 0,
      0, 0.8, 0, 0, 0, 0,
      0, 0, 0.8, 0, 0, 0,
      0, 0, 0, 0, 0, 0,
      0, 0, 0, 0, 0, 0,
      0, 0, 0, 0, 0, 0.8]"

text \<open>A \<^verbatim>\<open>malloc\<close> block that happens to hold zeros.\<close>

definition zero_block :: "nat \<Rightarrow> real" where
  "zero_block i = 0"

text \<open>Componentwise \<open>q + w \<cdot> dt\<close> on wheel vectors.\<close>

definition add_scaled :: "vec4 \<Rightarrow> vec4 \<Rightarrow> real \<Rightarrow> vec4" where
  "add_scaled q w dt =
     (case q of (q0, q1, q2, q3) \<Rightarrow> case w of (w0, w1, w2, w3) \<Rightarrow>
        (q0 + w0 * dt, q1 + w1 * dt, q2 + w2 * dt, q3 + w3 * dt))"

section \<open>Properties\<close>

subsection \<open>Kinematics\<close>

text \<open>
  C1. For every body velocity \<open>(vx, vy, \<omega>)\<close> the inverse kinematics returns
  \<open>[(vx - vy - k\<omega>)/r, (vx + vy + k\<omega>)/r, (vx + vy - k\<omega>)/r, (vx - vy + k\<omega>)/r]\<close> in
  the order front-left, front-right, back-left, back-right, with \<open>k = a + b\<close>; with
  \<open>r = 0.05\<close>, \<open>a = b = 0.1\<close> the command \<open>(0.5, 0, 0)\<close> gives 10 rad/s on all four wheels.
\<close>

theorem inverse_kinematics_formula:
  "calculate_wheel_velocity
      \<lparr>wheel_radius = r, half_wheel_base = a, half_track_width = b\<rparr> (vx, vy, w) =
     ((vx - vy - (a + b) * w) / r,
      (vx + vy + (a + b) * w) / r,
      (vx + vy - (a + b) * w) / r,
      (vx - vy + (a + b) * w) / r)
   \<and> calculate_wheel_velocity scenario_geometry (0.5, 0, 0) = (10, 10, 10, 10)"
  by (simp add: calculate_wheel_velocity_def geometry_factor_def scenario_geometry_def Let_def)


text \<open>
  The forward map is the least-squares solution: among all body velocities, the estimate
  it returns is one whose wheel velocity set is closest to the measured one.
\<close>

lemma dist4_sq_nonneg: "0 \<le> dist4_sq u u'"
  by (cases u, cases u') (simp add: dist4_sq_def)

lemma forward_inverse_identity:
  assumes "wheel_radius g \<noteq> 0" "geometry_factor g \<noteq> 0"
  shows "calculate_robot_velocity g (calculate_wheel_velocity g v) = v"
  using assms
  by (cases v)
     (simp add: calculate_robot_velocity_def calculate_wheel_velocity_def Let_def field_simps)

lemma residual_orthogonal:
  assumes "wheel_radius g \<noteq> 0" "geometry_factor g \<noteq> 0"
  shows "dist4_sq (calculate_wheel_velocity g v) u =
     dist4_sq (calculate_wheel_velocity g (calculate_robot_velocity g u)) u
     + dist4_sq (calculate_wheel_velocity g v)
         (calculate_wheel_velocity g (calculate_robot_velocity g u))"
proof -
  obtain vx vy w where v: "v = (vx, vy, w)" by (cases v)
  obtain w0 w1 w2 w3 where u: "u = (w0, w1, w2, w3)" by (cases u)
  define r where "r = wheel_radius g"
  define k where "k = geometry_factor g"
  have nz: "r \<noteq> 0" "k \<noteq> 0" using assms by (simp_all add: r_def k_def)
  show ?thesis
    using nz
    unfolding u v calculate_robot_velocity_def calculate_wheel_velocity_def dist4_sq_def
      Let_def r_def [symmetric] k_def [symmetric]
    by (simp add: field_simps power2_eq_square)
qed

lemma forward_least_squares:
  assumes "wheel_radius g \<noteq> 0" "geometry_factor g \<noteq> 0"
  shows "dist4_sq (calculate_wheel_velocity g (calculate_robot_velocity g u)) u
     \<le> dist4_sq (calculate_wheel_velocity g v) u"
  using residual_orthogonal [OF assms, of v u]
    dist4_sq_nonneg [of "calculate_wheel_velocity g v"
      "calculate_wheel_velocity g (calculate_robot_velocity g u)"]
  by linarith

text \<open>
  C2. For a geometry with non-zero wheel radius and non-zero factor \<open>k\<close>, and every body
  velocity \<open>v\<close>, forward kinematics after inverse kinematics returns \<open>v\<close>, and the forward
  map is the least-squares inverse of the inverse map: for every wheel velocity set \<open>u\<close>,
  no body velocity \<open>v'\<close> has a wheel velocity set closer to \<open>u\<close> than the estimate has.
\<close>

theorem kinematics_round_trip:
  assumes "wheel_radius g \<noteq> 0" "geometry_factor g \<noteq> 0"
  shows "calculate_robot_velocity g (calculate_wheel_velocity g v) = v
     \<and> dist4_sq (calculate_wheel_velocity g (calculate_robot_velocity g u)) u
         \<le> dist4_sq (calculate_wheel_velocity g v') u"
  using forward_inverse_identity [OF assms] forward_least_squares [OF assms] by simp

theorem kinematics_round_trip_witness:
  "wheel_radius scenario_geometry \<noteq> 0 \<and> geometry_factor scenario_geometry \<noteq> 0
   \<and> calculate_robot_velocity scenario_geometry
       (calculate_wheel_velocity scenario_geometry (0.5, 0, 0)) = (0.5, 0, 0)
   \<and> dist4_sq (calculate_wheel_velocity scenario_geometry
         (calculate_robot_velocity scenario_geometry (1, 0, 0, 0))) (1, 0, 0, 0)
       \<le> dist4_sq (calculate_wheel_velocity scenario_geometry (0, 0, 0)) (1, 0, 0, 0)"
proof -
  have r: "wheel_radius scenario_geometry \<noteq> 0"
    by (simp add: scenario_geometry_def)
  have k: "geometry_factor scenario_geometry \<noteq> 0"
    by (simp add: scenario_geometry_def geometry_factor_def)
  show ?thesis
    using r k kinematics_round_trip [OF r k, of "(0.5, 0, 0)" "(1, 0, 0, 0)" "(0, 0, 0)"]
    by simp
qed

subsection \<open>PID regulator\<close>

lemmas conf_defs = controller_conf_def PIDController_def base_kp_def base_ki_def base_kd_def
  max_expected_sampling_time_conf_def max_integral_conf_def









text \<open>
  The clamp is reached and the bound is attained: with the gains of \<^verbatim>\<open>core.cpp\<close> and a
  constant error of 10 at \<open>dt = 0.1\<close> the accumulator grows by 1 per call and stays at 5.2
  from call 6 on, where the integral term is \<open>5.2 \<cdot> 0.125 = 0.65\<close>.
\<close>

lemma integral_saturates:
  "integral (pid_run controller_conf (replicate 6 (Compute 10 0 0.1))) = 5.2
   \<and> integral_term (pid_run controller_conf (replicate 5 (Compute 10 0 0.1))) 10 0 0.1 = 0.65"
  by (simp add: pid_run_def compute_def integral_term_def compute_terms_def conf_defs
      clamp_def Let_def eval_nat_numeral)



text \<open>
  C5. When \<open>dt\<close> is zero, negative or above \<open>max_expected_sampling_time\<close>, \<open>compute\<close>
  returns the proportional term \<open>kp \<cdot> (setpoint - measured)\<close> alone and leaves the
  regulator, with its accumulator and its previous error, as it was.
\<close>

theorem invalid_dt_proportional_only:
  assumes "dt \<le> 0 \<or> max_expected_sampling_time c < dt"
  shows "compute c setpoint measured dt = (kp c * (setpoint - measured), c)"
  using assms by (auto simp add: compute_def compute_terms_def Let_def)

theorem invalid_dt_proportional_only_witness:
  "compute controller_conf 3 1 0 = (0.21, controller_conf)
   \<and> compute controller_conf 3 1 (- 1) = (0.21, controller_conf)
   \<and> compute controller_conf 3 1 0.5 = (0.21, controller_conf)"
  using invalid_dt_proportional_only [of 0 controller_conf 3 1]
    invalid_dt_proportional_only [of "- 1" controller_conf 3 1]
    invalid_dt_proportional_only [of "0.5" controller_conf 3 1]
  by (simp add: conf_defs)

subsection \<open>Motor channel\<close>

text \<open>
  C3. While the target is non-zero, the value a channel's update sends to the actuator
  is zero or at least \<open>min_output\<close> in magnitude; it has the sign of the filtered output,
  it is zero when the filtered output is zero, it is \<open>min_output\<close> with that sign when
  the filtered output is non-zero and below \<open>min_output\<close> in magnitude, and it is the
  filtered output otherwise. With a zero target the filtered output is sent unchanged.
\<close>

theorem deadband_enforcement:
  assumes "target_velocity m \<noteq> 0"
  shows "(fst (motor_update m raw dt) = 0 \<or> min_output m \<le> \<bar>fst (motor_update m raw dt)\<bar>)
     \<and> sgn (fst (motor_update m raw dt)) = sgn (fst (regulate m raw dt))
     \<and> fst (motor_update m raw dt) =
         (if fst (regulate m raw dt) = 0 then 0
          else if \<bar>fst (regulate m raw dt)\<bar> < min_output m
               then sgn (fst (regulate m raw dt)) * min_output m
          else fst (regulate m raw dt))
     \<and> fst (motor_update (set_target m 0) raw dt) = fst (regulate (set_target m 0) raw dt)"
  using assms
  by (auto simp: motor_update_def deadband_def set_target_def sgn_if split: prod.splits)

theorem deadband_enforcement_witness:
  "target_velocity (set_target motor_controller_conf 1) \<noteq> 0
   \<and> fst (regulate (set_target motor_controller_conf 1) 0 0.1) = 0.1675
   \<and> fst (motor_update (set_target motor_controller_conf 1) 0 0.1) = 0.35
   \<and> min_output (set_target motor_controller_conf 1) = 0.35"
proof -
  have t: "target_velocity (set_target motor_controller_conf 1) \<noteq> 0"
    by (simp add: set_target_def)
  have r: "fst (regulate (set_target motor_controller_conf 1) 0 0.1) = 0.1675"
    by (simp add: regulate_def compute_def compute_terms_def set_target_def
        motor_controller_conf_def PIDMotorController_def conf_defs clamp_def Let_def)
  have m: "min_output (set_target motor_controller_conf 1) = 0.35"
    by (simp add: set_target_def motor_controller_conf_def PIDMotorController_def
        MIN_OUTPUT_def)
  show ?thesis
    using t m deadband_enforcement [OF t, of 0 "0.1"] unfolding r by simp
qed

subsection \<open>Odometry\<close>

lemma atan2_bounds: "- pi < atan2 y x \<and> atan2 y x \<le> pi"
proof -
  have b: "- (pi / 2) < arctan (y / x)" "arctan (y / x) < pi / 2"
    using arctan_lbound arctan_ubound by auto
  consider "0 < x" | "x < 0" "0 \<le> y" | "x < 0" "y < 0"
    | "x = 0" "0 < y" | "x = 0" "y < 0" | "x = 0" "y = 0"
    by linarith
  then show ?thesis
  proof cases
    case 1
    then have "atan2 y x = arctan (y / x)" by (simp add: atan2_def)
    then show ?thesis using b pi_gt_zero by linarith
  next
    case 2
    then have "y / x \<le> 0" by (simp add: divide_nonneg_neg)
    then have "arctan (y / x) \<le> 0" using arctan_le_zero_iff by blast
    moreover have "atan2 y x = arctan (y / x) + pi" using 2 by (simp add: atan2_def)
    ultimately show ?thesis using b pi_gt_zero by linarith
  next
    case 3
    then have "0 < y / x" by (simp add: divide_neg_neg)
    then have "0 < arctan (y / x)" using zero_less_arctan_iff by blast
    moreover have "atan2 y x = arctan (y / x) - pi" using 3 by (simp add: atan2_def)
    ultimately show ?thesis using b pi_gt_zero by linarith
  next
    case 4
    then have "atan2 y x = pi / 2" by (simp add: atan2_def)
    then show ?thesis using pi_gt_zero by linarith
  next
    case 5
    then have "atan2 y x = - (pi / 2)" by (simp add: atan2_def)
    then show ?thesis using pi_gt_zero by linarith
  next
    case 6
    then have "atan2 y x = 0" by (simp add: atan2_def)
    then show ?thesis using pi_gt_zero by linarith
  qed
qed

text \<open>On \<open>(-\<pi>, \<pi>]\<close> the normalisation \<open>atan2(sin t, cos t)\<close> returns \<open>t\<close>.\<close>

lemma atan2_sin_cos:
  assumes "- pi < t" "t \<le> pi"
  shows "atan2 (sin t) (cos t) = t"
proof -
  consider "- (pi / 2) < t" "t < pi / 2" | "t = pi / 2" | "t = - (pi / 2)"
    | "pi / 2 < t" | "t < - (pi / 2)"
    by linarith
  then show ?thesis
  proof cases
    case 1
    then have "0 < cos t" by (simp add: cos_gt_zero_pi)
    then show ?thesis using 1 arctan_tan [of t] by (simp add: atan2_def tan_def)
  next
    case 2
    show ?thesis unfolding 2 by (simp add: atan2_def)
  next
    case 3
    show ?thesis unfolding 3 by (simp add: atan2_def)
  next
    case 4
    have c: "cos t = - cos (t - pi)" by (simp add: cos_diff)
    have s: "sin t = - sin (t - pi)" by (simp add: sin_diff)
    have r: "- (pi / 2) < t - pi" "t - pi < pi / 2" using 4 assms by linarith+
    have "0 < cos (t - pi)" using r by (rule cos_gt_zero_pi)
    then have n: "cos t < 0" using c by linarith
    have "0 \<le> sin t" using 4 assms pi_gt_zero by (intro sin_ge_zero) linarith+
    moreover have "sin t / cos t = tan (t - pi)" unfolding c s tan_def by simp
    ultimately have "atan2 (sin t) (cos t) = arctan (tan (t - pi)) + pi"
      using n by (simp add: atan2_def)
    then show ?thesis using arctan_tan [OF r] by linarith
  next
    case 5
    have c: "cos t = - cos (t + pi)" by (simp add: cos_add)
    have s: "sin t = - sin (t + pi)" by (simp add: sin_add)
    have r: "- (pi / 2) < t + pi" "t + pi < pi / 2" using 5 assms by linarith+
    have "0 < cos (t + pi)" using r by (rule cos_gt_zero_pi)
    then have n: "cos t < 0" using c by linarith
    have "0 < sin (- t)" using 5 assms pi_gt_zero by (intro sin_gt_zero) linarith+
    then have "sin t < 0" by simp
    moreover have "sin t / cos t = tan (t + pi)" unfolding c s tan_def by simp
    ultimately have "atan2 (sin t) (cos t) = arctan (tan (t + pi)) - pi"
      using n by (simp add: atan2_def)
    then show ?thesis using arctan_tan [OF r] by linarith
  qed
qed

text \<open>The normalisation keeps the direction of the heading.\<close>

lemma atan2_normalises:
  "sin (atan2 (sin t) (cos t)) = sin t \<and> cos (atan2 (sin t) (cos t)) = cos t"
proof -
  obtain y where y: "- pi < y" "y \<le> pi" "sin y = sin t" "cos y = cos t"
    using sincos_principal_value [of t] by blast
  have "atan2 (sin y) (cos y) = y" using y(1,2) by (rule atan2_sin_cos)
  then show ?thesis using y(3,4) by simp
qed

lemma odometry_step_formula:
  "odometry_step (x, y, th) (vx, vy, w) dt =
     (x + (vx * cos th - vy * sin th) * dt,
      y + (vx * sin th + vy * cos th) * dt,
      atan2 (sin (th + w * dt)) (cos (th + w * dt)))"
  by (simp add: odometry_step_def Let_def algebra_simps)

lemma odometry_step_straight:
  "odometry_step (x, 0, 0) (1, 0, 0) dt = (x + dt, 0, 0)"
  by (simp add: odometry_step_def Let_def atan2_def)

lemma odometry_step_turn:
  assumes "- pi < th + w * dt" "th + w * dt \<le> pi"
  shows "odometry_step (x, y, th) (0, 0, w) dt = (x, y, th + w * dt)"
  using atan2_sin_cos [OF assms] by (simp add: odometry_step_def Let_def)

lemma odometry_run_straight:
  "odometry_run 10 (1.0, 0, 0) 0.1 (0, 0, 0) = (1.0, 0, 0)"
  by (simp add: odometry_run_def eval_nat_numeral odometry_step_straight)

lemma odometry_run_turn:
  "odometry_run 10 (0, 0, pi / 2) 0.1 (0, 0, 0) = (0, 0, pi / 2)"
proof -
  have step: "odometry_step (0, 0, real k * pi / 20) (0, 0, pi / 2) 0.1 =
      (0, 0, real (Suc k) * pi / 20)" if "k < 10" for k
  proof -
    have e: "real k * pi / 20 + pi / 2 * 0.1 = real (Suc k) * pi / 20"
      by (simp add: field_simps)
    have "real (Suc k) \<le> 10" using that by simp
    then have "real (Suc k) * pi \<le> 10 * pi"
      using pi_gt_zero by (intro mult_right_mono) simp_all
    moreover have "0 \<le> real (Suc k) * pi" using pi_gt_zero by simp
    ultimately have "- pi < real (Suc k) * pi / 20" "real (Suc k) * pi / 20 \<le> pi"
      using pi_gt_zero by linarith+
    then show ?thesis
      using odometry_step_turn [of "real k * pi / 20" "pi / 2" "0.1" 0 0]
      unfolding e by simp
  qed
  have "odometry_run n (0, 0, pi / 2) 0.1 (0, 0, 0) = (0, 0, real n * pi / 20)"
    if "n \<le> 10" for n
    using that
  proof (induction n)
    case 0
    then show ?case by (simp add: odometry_run_def)
  next
    case (Suc n)
    then show ?case using step [of n] by (simp add: odometry_run_def)
  qed
  from this [of 10] show ?thesis by simp
qed

lemma loop_pose:
  "pose (loop st enc dt_ctrl dt) =
     odometry_step (pose st)
       (get_robot_velocity (robot_controller (loop st enc dt_ctrl dt))) dt"
  by (simp add: loop_def Let_def split: prod.splits)

text \<open>
  C6. One odometry step takes the pose \<open>(x, y, \<theta>)\<close> with the velocity estimate
  \<open>(vx, vy, \<omega>)\<close> and the time step \<open>dt\<close> to
  \<open>x' = x + (vx cos \<theta> - vy sin \<theta>) dt\<close>, \<open>y' = y + (vx sin \<theta> + vy cos \<theta>) dt\<close>,
  \<open>\<theta>' = atan2(sin(\<theta> + \<omega> dt), cos(\<theta> + \<omega> dt))\<close>, and \<open>\<theta>'\<close> lies in \<open>(-\<pi>, \<pi>]\<close>. From
  the zero pose, ten steps of 0.1 s with velocity \<open>(1, 0, 0)\<close> give the pose \<open>(1, 0, 0)\<close>,
  and ten steps of 0.1 s with velocity \<open>(0, 0, \<pi>/2)\<close> give the heading \<open>\<pi>/2\<close>. Every
  pass of \<^verbatim>\<open>loop\<close> makes this step, with the velocity estimate of that pass.
\<close>

theorem odometry_step_correct:
  "odometry_step (x, y, th) (vx, vy, w) dt =
     (x + (vx * cos th - vy * sin th) * dt,
      y + (vx * sin th + vy * cos th) * dt,
      atan2 (sin (th + w * dt)) (cos (th + w * dt)))
   \<and> - pi < atan2 (sin (th + w * dt)) (cos (th + w * dt))
   \<and> atan2 (sin (th + w * dt)) (cos (th + w * dt)) \<le> pi
   \<and> odometry_run 10 (1.0, 0, 0) 0.1 (0, 0, 0) = (1.0, 0, 0)
   \<and> odometry_run 10 (0, 0, pi / 2) 0.1 (0, 0, 0) = (0, 0, pi / 2)
   \<and> pose (loop st enc dt_ctrl dt) =
       odometry_step (pose st)
         (get_robot_velocity (robot_controller (loop st enc dt_ctrl dt))) dt"
  using odometry_step_formula [of x y th vx vy w dt]
    atan2_bounds [of "sin (th + w * dt)" "cos (th + w * dt)"]
    odometry_run_straight odometry_run_turn loop_pose [of st enc dt_ctrl dt]
  by simp

subsection \<open>Velocity commands\<close>

lemma callback_smoothed:
  "smoothed_cmd_vel (cmd_vel_subscription_callback st msg) =
     (fst (filter_update (cmd_vel_filter_x st) (linear_x msg)),
      fst (filter_update (cmd_vel_filter_y st) (linear_y msg)),
      fst (filter_update (cmd_vel_filter_rot st) (angular_z msg)))"
  by (simp add: cmd_vel_subscription_callback_def Let_def split: prod.splits)

lemma callback_filters:
  "cmd_vel_filter_x (cmd_vel_subscription_callback st msg) =
     snd (filter_update (cmd_vel_filter_x st) (linear_x msg))"
  "cmd_vel_filter_y (cmd_vel_subscription_callback st msg) =
     snd (filter_update (cmd_vel_filter_y st) (linear_y msg))"
  "cmd_vel_filter_rot (cmd_vel_subscription_callback st msg) =
     snd (filter_update (cmd_vel_filter_rot st) (angular_z msg))"
  by (simp_all add: cmd_vel_subscription_callback_def Let_def split: prod.splits)

lemma callback_latest_command:
  "latest_command (robot_controller (cmd_vel_subscription_callback st msg)) =
     smoothed_cmd_vel (cmd_vel_subscription_callback st msg)"
  by (simp add: cmd_vel_subscription_callback_def set_latest_command_def Let_def
      split: prod.splits)

lemma get_ki_all_set_ki_all: "get_ki_all (set_ki_all mgr k) = (k, k, k, k)"
  by (cases mgr) (simp add: get_ki_all_def set_ki_all_def set_ki_def)

lemma callback_ki:
  "get_ki_all (motor_manager (robot_controller (cmd_vel_subscription_callback st msg))) =
     (let k = select_ki (smoothed_cmd_vel (cmd_vel_subscription_callback st msg))
      in (k, k, k, k))"
  by (simp add: cmd_vel_subscription_callback_def set_latest_command_def Let_def
      get_ki_all_set_ki_all split: prod.splits)

text \<open>
  C7, as stated, fails: the thresholds are not applied to the received command. After a
  zero command, the command \<open>(0.8, 0, 0)\<close> has \<open>|vx| > 0.5\<close>, and the callback sets the
  base gain, not the linear one.
\<close>

theorem ki_raw_command_counterexample:
  "\<bar>linear_x (command 0.8 0 0)\<bar> > 0.5
   \<and> get_ki_all (motor_manager (robot_controller
        (run (initial_state scenario_geometry)
           [CmdVel (command 0 0 0), CmdVel (command 0.8 0 0)]))) =
       (base_ki, base_ki, base_ki, base_ki)
   \<and> base_ki \<noteq> base_ki * modifier_ki_linear"
  by (simp add: run_def callback_ki callback_smoothed callback_filters select_ki_def Let_def
      initial_state_def command_def base_ki_def modifier_ki_linear_def)

text \<open>
  C7, amended. For every received velocity command, with \<open>(sx, sy, s\<omega>)\<close> the outputs of
  the three command filters for it (the smoothed command), the integral gain of all four
  regulators is set to \<open>base_ki \<cdot> modifier_ki_linear\<close> if \<open>|sx| > 0.5\<close> or \<open>|sy| > 0.5\<close>,
  otherwise to \<open>base_ki \<cdot> modifier_ki_rotational\<close> if \<open>|s\<omega>| > 1.0\<close>, otherwise to
  \<open>base_ki\<close>; the linear condition comes first.
\<close>

theorem ki_selected_from_smoothed:
  "smoothed_cmd_vel (cmd_vel_subscription_callback st msg) =
     (fst (filter_update (cmd_vel_filter_x st) (linear_x msg)),
      fst (filter_update (cmd_vel_filter_y st) (linear_y msg)),
      fst (filter_update (cmd_vel_filter_rot st) (angular_z msg)))
   \<and> get_ki_all (motor_manager (robot_controller (cmd_vel_subscription_callback st msg))) =
     (case smoothed_cmd_vel (cmd_vel_subscription_callback st msg) of (sx, sy, sw) \<Rightarrow>
        let k = (if \<bar>sx\<bar> > 0.5 \<or> \<bar>sy\<bar> > 0.5 then base_ki * modifier_ki_linear
                 else if \<bar>sw\<bar> > 1.0 then base_ki * modifier_ki_rotational
                 else base_ki)
        in (k, k, k, k))"
  unfolding callback_ki by (simp add: callback_smoothed select_ki_def Let_def)

text \<open>The moving average filter holds the last \<open>W\<close> samples of its input history.\<close>

lemma drop_window:
  "drop (length (drop (length xs - W) xs @ [x]) - W) (drop (length xs - W) xs @ [x]) =
   drop (length (xs @ [x]) - W) (xs @ [x])"
proof (cases "length xs < W")
  case True
  then show ?thesis by simp
next
  case False
  then have l: "length (drop (length xs - W) xs) = W" by simp
  have "drop (length (drop (length xs - W) xs @ [x]) - W) (drop (length xs - W) xs @ [x])
      = drop 1 (drop (length xs - W) xs @ [x])"
    using l by simp
  also have "\<dots> = drop (Suc (length xs - W)) (xs @ [x])"
    using False
    by (cases "W = 0") (simp_all add: drop_Suc drop_tl tl_append split: list.splits)
  also have "\<dots> = drop (length (xs @ [x]) - W) (xs @ [x])"
    using False by (simp add: Suc_diff_le)
  finally show ?thesis .
qed

lemma moving_average_update:
  "filter_update (MovingAverageFilter W (drop (length xs - W) xs)) x =
     (mean_last W (xs @ [x]),
      MovingAverageFilter W (drop (length (xs @ [x]) - W) (xs @ [x])))"
  by (simp only: filter_update.simps Let_def drop_window mean_last_def)

lemma moving_average_map:
  "filter_update (MovingAverageFilter W (drop (length ms - W) (map f ms))) x =
     (mean_last W (map f ms @ [x]),
      MovingAverageFilter W (drop (Suc (length ms) - W) (map f ms @ [x])))"
  using moving_average_update [of W "map f ms" x] by (simp del: filter_update.simps)

lemma loop_filters:
  "cmd_vel_filter_x (loop st enc dc dt) = cmd_vel_filter_x st"
  "cmd_vel_filter_y (loop st enc dc dt) = cmd_vel_filter_y st"
  "cmd_vel_filter_rot (loop st enc dc dt) = cmd_vel_filter_rot st"
  by (simp_all add: loop_def Let_def split: prod.splits)

lemma received_append: "received (evs @ evs') = received evs @ received evs'"
  by (induction evs rule: received.induct) simp_all

lemma run_snoc: "run st (evs @ [e]) = event_step (run st evs) e"
  by (simp add: run_def)

lemma setup_core_filters:
  "cmd_vel_filter_x (setup_core heap jp jv st) = cmd_vel_filter_x st"
  "cmd_vel_filter_y (setup_core heap jp jv st) = cmd_vel_filter_y st"
  "cmd_vel_filter_rot (setup_core heap jp jv st) = cmd_vel_filter_rot st"
  by (simp_all add: setup_core_def)

lemma run_filters:
  "cmd_vel_filter_x (run (setup_core heap jp jv (initial_state g)) evs) =
     MovingAverageFilter 2
       (drop (length (received evs) - 2) (map linear_x (received evs)))
   \<and> cmd_vel_filter_y (run (setup_core heap jp jv (initial_state g)) evs) =
     MovingAverageFilter 2
       (drop (length (received evs) - 2) (map linear_y (received evs)))
   \<and> cmd_vel_filter_rot (run (setup_core heap jp jv (initial_state g)) evs) =
     MovingAverageFilter 4
       (drop (length (received evs) - 4) (map angular_z (received evs)))"
proof (induction evs rule: rev_induct)
  case Nil
  show ?case by (simp add: run_def setup_core_filters) (simp add: initial_state_def)
next
  case (snoc e evs)
  show ?case
  proof (cases e)
    case (CmdVel msg)
    show ?thesis
      using snoc
      by (simp add: CmdVel run_snoc received_append callback_filters moving_average_map
          del: filter_update.simps)
  next
    case (Loop enc dc dt)
    then show ?thesis using snoc by (simp add: run_snoc received_append loop_filters)
  qed
qed

lemma command_smoothed:
  "smoothed_cmd_vel
     (cmd_vel_subscription_callback (run (setup_core heap jp jv (initial_state g)) evs) msg) =
     (mean_last 2 (map linear_x (received evs @ [msg])),
      mean_last 2 (map linear_y (received evs @ [msg])),
      mean_last 4 (map angular_z (received evs @ [msg])))"
  using run_filters [of heap jp jv g evs]
  by (simp add: callback_smoothed moving_average_map del: filter_update.simps)

text \<open>
  C9. After \<^verbatim>\<open>setup\<close> and any events, the command the callback stores for a received
  message is not the message: per axis it is the mean of the last messages including
  this one, over a window of 2 for linear x, 2 for linear y and 4 for angular z (fewer
  while fewer have arrived), and the gain is selected by the thresholds on these means.
  So after three commands \<open>(0.1, 0, 0)\<close> the command \<open>(0.8, 0, 0)\<close> is stored as
  \<open>(0.45, 0, 0)\<close> and leaves the base gain in place, though \<open>0.8 > 0.5\<close>.
\<close>

theorem command_is_moving_average:
  "latest_command (robot_controller
      (cmd_vel_subscription_callback (run (setup_core heap jp jv (initial_state g)) evs) msg)) =
     (mean_last 2 (map linear_x (received evs @ [msg])),
      mean_last 2 (map linear_y (received evs @ [msg])),
      mean_last 4 (map angular_z (received evs @ [msg])))
   \<and> get_ki_all (motor_manager (robot_controller
      (cmd_vel_subscription_callback (run (setup_core heap jp jv (initial_state g)) evs) msg))) =
     (let k = (if \<bar>mean_last 2 (map linear_x (received evs @ [msg]))\<bar> > 0.5
                  \<or> \<bar>mean_last 2 (map linear_y (received evs @ [msg]))\<bar> > 0.5
               then base_ki * modifier_ki_linear
               else if \<bar>mean_last 4 (map angular_z (received evs @ [msg]))\<bar> > 1.0
               then base_ki * modifier_ki_rotational
               else base_ki)
      in (k, k, k, k))
   \<and> latest_command (robot_controller
        (run (setup_core heap jp jv (initial_state g))
           [CmdVel (command 0.1 0 0), CmdVel (command 0.1 0 0), CmdVel (command 0.1 0 0),
            CmdVel (command 0.8 0 0)])) = (0.45, 0, 0)
   \<and> get_ki_all (motor_manager (robot_controller
        (run (setup_core heap jp jv (initial_state g))
           [CmdVel (command 0.1 0 0), CmdVel (command 0.1 0 0), CmdVel (command 0.1 0 0),
            CmdVel (command 0.8 0 0)]))) = (base_ki, base_ki, base_ki, base_ki)"
proof -
  let ?S = "setup_core heap jp jv (initial_state g)"
  let ?small = "[CmdVel (command 0.1 0 0), CmdVel (command 0.1 0 0), CmdVel (command 0.1 0 0)]"
  have a: "latest_command (robot_controller (cmd_vel_subscription_callback (run ?S evs) msg)) =
     (mean_last 2 (map linear_x (received evs @ [msg])),
      mean_last 2 (map linear_y (received evs @ [msg])),
      mean_last 4 (map angular_z (received evs @ [msg])))" for evs msg
    by (simp only: callback_latest_command command_smoothed)
  have b: "get_ki_all (motor_manager (robot_controller
      (cmd_vel_subscription_callback (run ?S evs) msg))) =
     (let k = (if \<bar>mean_last 2 (map linear_x (received evs @ [msg]))\<bar> > 0.5
                  \<or> \<bar>mean_last 2 (map linear_y (received evs @ [msg]))\<bar> > 0.5
               then base_ki * modifier_ki_linear
               else if \<bar>mean_last 4 (map angular_z (received evs @ [msg]))\<bar> > 1.0
               then base_ki * modifier_ki_rotational
               else base_ki)
      in (k, k, k, k))" for evs msg
    unfolding callback_ki command_smoothed by (simp add: select_ki_def Let_def)
  have r: "run ?S (?small @ [CmdVel (command 0.8 0 0)]) =
      cmd_vel_subscription_callback (run ?S ?small) (command 0.8 0 0)"
    by (simp only: run_snoc event_step.simps)
  have c: "latest_command (robot_controller (run ?S (?small @ [CmdVel (command 0.8 0 0)])))
      = (0.45, 0, 0)"
    unfolding r a by (simp add: mean_last_def command_def)
  have d: "get_ki_all (motor_manager (robot_controller
      (run ?S (?small @ [CmdVel (command 0.8 0 0)])))) = (base_ki, base_ki, base_ki, base_ki)"
    unfolding r b by (simp add: mean_last_def command_def)
  show ?thesis using a [of evs msg] b [of evs msg] c d by simp
qed

subsection \<open>Odometry covariance\<close>

lemma temp_covariance_eval: "memcpy36 (temp_covariance heap) = covariance_matrix"
  unfolding memcpy36_def temp_covariance_def zero_off_diagonal_def covariance_matrix_def
  by (simp add: upt_rec [of _ "numeral _"] upt_rec [of _ "Suc _"])

lemma callback_covariance:
  "pose_covariance (odom_msg (cmd_vel_subscription_callback st msg)) =
     pose_covariance (odom_msg st)"
  "twist_covariance (odom_msg (cmd_vel_subscription_callback st msg)) =
     twist_covariance (odom_msg st)"
  by (simp_all add: cmd_vel_subscription_callback_def Let_def split: prod.splits)

lemma loop_covariance:
  "pose_covariance (odom_msg (loop st enc dc dt)) = pose_covariance (odom_msg st)"
  "twist_covariance (odom_msg (loop st enc dc dt)) = twist_covariance (odom_msg st)"
  by (simp_all add: loop_def Let_def split: prod.splits)

lemma event_step_covariance:
  "pose_covariance (odom_msg (event_step st e)) = pose_covariance (odom_msg st)"
  "twist_covariance (odom_msg (event_step st e)) = twist_covariance (odom_msg st)"
  by (cases e; simp add: callback_covariance loop_covariance)+

lemma run_covariance:
  "pose_covariance (odom_msg (run st evs)) = pose_covariance (odom_msg st)
   \<and> twist_covariance (odom_msg (run st evs)) = twist_covariance (odom_msg st)"
  unfolding run_def
  by (induction evs arbitrary: st) (simp_all add: event_step_covariance)

text \<open>
  C8, as stated, fails at the z axis, which a planar robot does not observe: entry
  \<open>12 + 2\<close> of the covariance \<^verbatim>\<open>setup\<close> writes is 0.8, not 0.
\<close>

theorem covariance_z_counterexample:
  "pose_covariance (odom_msg (setup_core zero_block (0, 0, 0, 0) (0, 0, 0, 0)
      (initial_state scenario_geometry))) ! (12 + 2) = 0.8
   \<and> pose_covariance (odom_msg (setup_core zero_block (0, 0, 0, 0) (0, 0, 0, 0)
      (initial_state scenario_geometry))) ! (12 + 2) \<noteq> 0"
  by (simp add: setup_core_def temp_covariance_eval covariance_matrix_def)

text \<open>
  C8, amended. Whatever the fresh block holds, \<^verbatim>\<open>setup\<close> leaves in both the pose and the
  twist covariance the same fixed diagonal matrix, with 0.8 on the x, y, z and yaw
  diagonal terms (indices 0, 7, 14, 35) and 0 on the roll and pitch diagonal terms and
  on every off-diagonal entry; no velocity command and no pass of \<^verbatim>\<open>loop\<close> changes it.
\<close>

theorem covariance_static:
  "pose_covariance (odom_msg (run (setup_core heap jp jv st) evs)) = covariance_matrix
   \<and> twist_covariance (odom_msg (run (setup_core heap jp jv st) evs)) = covariance_matrix
   \<and> covariance_matrix =
       map (\<lambda>i. if i = 0 \<or> i = 7 \<or> i = 14 \<or> i = 35 then 0.8 else 0) [0..<36]"
proof -
  have "covariance_matrix =
      map (\<lambda>i. if i = 0 \<or> i = 7 \<or> i = 14 \<or> i = 35 then 0.8 else 0) [0..<36]"
    by (simp add: covariance_matrix_def upt_rec [of _ "numeral _"] upt_rec [of _ "Suc _"])
  then show ?thesis
    using run_covariance [of "setup_core heap jp jv st" evs]
    by (simp add: setup_core_def temp_covariance_eval)
qed

subsection \<open>Joint state\<close>

lemma loop_robot_controller:
  "robot_controller (loop st enc dc dt) =
     snd (VelocityController_update (robot_controller st) enc dc)"
  by (simp add: loop_def Let_def split: prod.splits)

lemma update_kinematics_model:
  "kinematics_model (snd (VelocityController_update vc enc dc)) = kinematics_model vc"
  by (simp add: VelocityController_update_def Let_def split: prod.splits)

lemma update_robot_velocity:
  "get_robot_velocity (snd (VelocityController_update vc enc dc)) =
   calculate_robot_velocity (kinematics_model vc)
     (get_measured_velocities (motor_manager (snd (VelocityController_update vc enc dc))))"
  by (simp add: VelocityController_update_def get_robot_velocity_def Let_def
      split: prod.splits)

lemma update_measured:
  "get_measured_velocities (motor_manager (snd (VelocityController_update vc enc dc))) = enc"
  by (cases enc, cases "motor_manager vc")
     (simp add: VelocityController_update_def manager_update_def motor_update_def
      regulate_def get_measured_velocities_def set_targets_def Let_def split: prod.splits)

lemma loop_joint_state:
  "joint_state_msg (loop st enc dc dt) =
     joint_state_step (joint_state_msg st)
       (calculate_wheel_velocity (kinematics_model (robot_controller (loop st enc dc dt)))
          (get_robot_velocity (robot_controller (loop st enc dc dt)))) dt"
  by (simp add: loop_def Let_def split: prod.splits)

lemma joint_state_step_fields:
  "velocity (joint_state_step js w dt) = w"
  "position (joint_state_step js w dt) = add_scaled (position js) w dt"
  by (cases "position js"; cases w; simp add: joint_state_step_def add_scaled_def)+

text \<open>
  After a pass of \<^verbatim>\<open>loop\<close>, the velocity estimate is the forward kinematics of the
  measured wheel velocities, the published wheel velocities are the inverse kinematics
  of that estimate, and each published position has grown by the published velocity
  times \<open>dt\<close>. For a geometry with non-zero wheel radius and factor \<open>k\<close> the published
  velocities are the projection of the measurements on the consistent wheel velocity
  sets: they are consistent (inverse after forward leaves them unchanged) and no
  consistent set is closer to the measurements.
\<close>

lemma loop_joint_state_projection:
  "get_robot_velocity (robot_controller (loop st enc dt_ctrl dt)) =
     calculate_robot_velocity (kinematics_model (robot_controller (loop st enc dt_ctrl dt)))
       (get_measured_velocities (motor_manager (robot_controller (loop st enc dt_ctrl dt))))
   \<and> velocity (joint_state_msg (loop st enc dt_ctrl dt)) =
     calculate_wheel_velocity (kinematics_model (robot_controller (loop st enc dt_ctrl dt)))
       (get_robot_velocity (robot_controller (loop st enc dt_ctrl dt)))
   \<and> position (joint_state_msg (loop st enc dt_ctrl dt)) =
     add_scaled (position (joint_state_msg st))
       (velocity (joint_state_msg (loop st enc dt_ctrl dt))) dt
   \<and> (wheel_radius (kinematics_model (robot_controller st)) \<noteq> 0
       \<and> geometry_factor (kinematics_model (robot_controller st)) \<noteq> 0 \<longrightarrow>
        calculate_wheel_velocity (kinematics_model (robot_controller st))
          (calculate_robot_velocity (kinematics_model (robot_controller st))
             (velocity (joint_state_msg (loop st enc dt_ctrl dt))))
          = velocity (joint_state_msg (loop st enc dt_ctrl dt))
        \<and> dist4_sq (velocity (joint_state_msg (loop st enc dt_ctrl dt)))
             (get_measured_velocities
                (motor_manager (robot_controller (loop st enc dt_ctrl dt))))
           \<le> dist4_sq (calculate_wheel_velocity (kinematics_model (robot_controller st)) v)
             (get_measured_velocities
                (motor_manager (robot_controller (loop st enc dt_ctrl dt)))))"
proof -
  let ?st' = "loop st enc dt_ctrl dt"
  let ?rc = "robot_controller ?st'"
  let ?g = "kinematics_model (robot_controller st)"
  have g: "kinematics_model ?rc = ?g"
    by (simp add: loop_robot_controller update_kinematics_model)
  have e: "get_robot_velocity ?rc =
      calculate_robot_velocity ?g (get_measured_velocities (motor_manager ?rc))"
    unfolding loop_robot_controller by (rule update_robot_velocity)
  have p: "velocity (joint_state_msg ?st') =
      calculate_wheel_velocity ?g (get_robot_velocity ?rc)"
    by (simp only: loop_joint_state joint_state_step_fields g)
  have q: "position (joint_state_msg ?st') =
      add_scaled (position (joint_state_msg st)) (velocity (joint_state_msg ?st')) dt"
    by (simp only: loop_joint_state joint_state_step_fields)
  have "calculate_wheel_velocity ?g
          (calculate_robot_velocity ?g (velocity (joint_state_msg ?st')))
         = velocity (joint_state_msg ?st')
      \<and> dist4_sq (velocity (joint_state_msg ?st'))
          (get_measured_velocities (motor_manager ?rc))
         \<le> dist4_sq (calculate_wheel_velocity ?g v)
          (get_measured_velocities (motor_manager ?rc))"
    if nz: "wheel_radius ?g \<noteq> 0" "geometry_factor ?g \<noteq> 0"
    unfolding p e
    using forward_inverse_identity [OF nz] forward_least_squares [OF nz] by simp
  then show ?thesis using e p q unfolding g by blast
qed

lemma setup_core_fields:
  "robot_controller (setup_core heap jp jv st) = robot_controller st"
  "position (joint_state_msg (setup_core heap jp jv st)) = jp"
  by (simp_all add: setup_core_def)

lemma first_pass_velocity:
  "velocity (joint_state_msg (loop (setup_core heap jp jv (initial_state g)) enc dt_ctrl dt)) =
     calculate_wheel_velocity g (calculate_robot_velocity g enc)"
proof -
  let ?S = "setup_core heap jp jv (initial_state g)"
  have k: "kinematics_model (robot_controller ?S) = g"
    by (simp add: setup_core_fields initial_state_def VelocityController_def)
  have "kinematics_model (robot_controller (loop ?S enc dt_ctrl dt)) = g"
    by (simp only: loop_robot_controller update_kinematics_model k)
  moreover have "get_measured_velocities
      (motor_manager (robot_controller (loop ?S enc dt_ctrl dt))) = enc"
    by (simp only: loop_robot_controller update_measured)
  ultimately show ?thesis
    using loop_joint_state_projection [of ?S enc dt_ctrl dt] by simp
qed

text \<open>
  C10. The published wheel velocities are the inverse kinematics of the velocity
  estimate, itself the forward kinematics of the measured wheel velocities, and every
  pass adds the published velocity times \<open>dt\<close> to each position. The positions are not
  the running sum, though: the position array is a fresh \<^verbatim>\<open>malloc\<close> block (line 333)
  that nothing writes before the first \<^verbatim>\<open>+=\<close> of line 467, so after the first pass the
  published position is the content \<open>jp\<close> of that block plus the increment. With a block
  holding 7, encoder readings \<open>(1, 0, 0, 0)\<close> and \<open>dt = 0.01\<close> in the scenario geometry,
  the first pass publishes the velocities \<open>(0.75, -0.25, 0.25, 0.25)\<close> and the positions
  \<open>(7.0075, 6.9975, 7.0025, 7.0025)\<close>; the running sum is
  \<open>(0.0075, -0.0025, 0.0025, 0.0025)\<close>.
\<close>

theorem joint_position_starts_from_unwritten_block:
  "position (joint_state_msg
      (loop (setup_core heap jp jv (initial_state g)) enc dt_ctrl dt)) =
     add_scaled jp (calculate_wheel_velocity g (calculate_robot_velocity g enc)) dt
   \<and> velocity (joint_state_msg
        (loop (setup_core zero_block (7, 7, 7, 7) (0, 0, 0, 0)
           (initial_state scenario_geometry)) (1, 0, 0, 0) 0.01 0.01)) =
       (0.75, - 0.25, 0.25, 0.25)
   \<and> position (joint_state_msg
        (loop (setup_core zero_block (7, 7, 7, 7) (0, 0, 0, 0)
           (initial_state scenario_geometry)) (1, 0, 0, 0) 0.01 0.01)) =
       (7.0075, 6.9975, 7.0025, 7.0025)
   \<and> add_scaled (0, 0, 0, 0) (0.75, - 0.25, 0.25, 0.25) 0.01 =
       (0.0075, - 0.0025, 0.0025, 0.0025)"
proof -
  have p: "position (joint_state_msg
      (loop (setup_core heap jp jv (initial_state g)) enc dt_ctrl dt)) =
     add_scaled jp (calculate_wheel_velocity g (calculate_robot_velocity g enc)) dt"
    for heap jp jv g enc dt_ctrl dt
    using loop_joint_state_projection
      [of "setup_core heap jp jv (initial_state g)" enc dt_ctrl dt]
    by (simp add: first_pass_velocity setup_core_fields)
  have f: "calculate_wheel_velocity scenario_geometry
        (calculate_robot_velocity scenario_geometry (1, 0, 0, 0)) = (0.75, - 0.25, 0.25, 0.25)"
    by (simp add: calculate_wheel_velocity_def calculate_robot_velocity_def
        scenario_geometry_def geometry_factor_def Let_def)
  show ?thesis
    unfolding p first_pass_velocity f by (simp add: add_scaled_def)
qed

end
